theory Spec2Isabelle
  imports Main "HOL-Library.Sublist"
begin

section \<open>Strings and paths: the library functions the script calls\<close>

text \<open>
  \<^verbatim>\<open>str.split(sep)\<close> with a one-character separator: the fields between the
  separators, empty fields kept, so that the empty string gives one empty field.
\<close>

fun str_split :: "char \<Rightarrow> string \<Rightarrow> string list" where
  "str_split sep [] = [[]]"
| "str_split sep (c # cs) =
     (if c = sep then [] # str_split sep cs
      else (case str_split sep cs of
              [] \<Rightarrow> [[c]]
            | w # ws \<Rightarrow> (c # w) # ws))"

text \<open>\<^verbatim>\<open>sep.join(xs)\<close>.\<close>

fun str_join :: "string \<Rightarrow> string list \<Rightarrow> string" where
  "str_join sep [] = []"
| "str_join sep [x] = x"
| "str_join sep (x # y # ys) = x @ sep @ str_join sep (y # ys)"

text \<open>\<^verbatim>\<open>s.rstrip(c)\<close> for a single character.\<close>

definition rstrip :: "char \<Rightarrow> string \<Rightarrow> string" where
  "rstrip c s = rev (dropWhile (\<lambda>x. x = c) (rev s))"

text \<open>
  \<^verbatim>\<open>posixpath.splitroot\<close> without the drive, which is always empty on POSIX: the
  root is \<^verbatim>\<open>/\<close> for an absolute path, \<^verbatim>\<open>//\<close> for one with exactly two leading
  slashes, and empty for a relative path.
\<close>

definition splitroot :: "string \<Rightarrow> string \<times> string" where
  "splitroot p =
     (if take 1 p \<noteq> ''/'' then ([], p)
      else if take 1 (drop 1 p) \<noteq> ''/'' \<or> take 1 (drop 2 p) = ''/'' then (''/'', drop 1 p)
      else (''//'', drop 2 p))"

text \<open>
  \<^verbatim>\<open>PurePosixPath(p).parts\<close>: the root, when there is one, then the names between
  the slashes, with empty names and \<^verbatim>\<open>.\<close> dropped.
\<close>

definition posix_parts :: "string \<Rightarrow> string list" where
  "posix_parts p =
     (case splitroot p of
        (root, rel) \<Rightarrow>
          (let tail = filter (\<lambda>x. x \<noteq> [] \<and> x \<noteq> ''.'') (str_split CHR ''/'' rel)
           in if root \<noteq> [] then root # tail else tail))"

section \<open>Errors\<close>

text \<open>
  The exceptions the script raises or lets through. \<^verbatim>\<open>ValueError\<close> carries the
  object it was raised with: the path of the redirect target (given by the string the
  \<^verbatim>\<open>PurePosixPath\<close> was built from) or a string of \<^verbatim>\<open>platform.uname()\<close>.
\<close>

datatype pyobj = PathObj string | StrObj string

datatype error =
    ValueError pyobj
  | CalledProcessError int "string list"
  | IndexError
  | OSError
  | URLError

section \<open>Installing mise: release resolution and the archive's name\<close>

definition latest_release_url :: string where
  "latest_release_url = ''https://github.com/jdx/mise/releases/latest''"

definition download_url :: string where
  "download_url = ''https://github.com/jdx/mise/releases/download''"

text \<open>
  The \<^verbatim>\<open>match parts\<close> statement of \<^verbatim>\<open>_install_mise\<close>: six parts, the fourth and
  fifth being \<^verbatim>\<open>releases\<close> and \<^verbatim>\<open>tag\<close>, give the sixth as the tag; every other
  tuple raises \<^verbatim>\<open>ValueError(path)\<close>.
\<close>

fun match_parts :: "string \<Rightarrow> string list \<Rightarrow> error + string" where
  "match_parts path [p0, p1, p2, p3, p4, tag] =
     (if p3 = ''releases'' \<and> p4 = ''tag'' then Inr tag else Inl (ValueError (PathObj path)))"
| "match_parts path parts = Inl (ValueError (PathObj path))"

text \<open>
  Lines 155 to 163, from the path of the final URL (\<^verbatim>\<open>urlsplit(response.url).path\<close>)
  to the tag.
\<close>

definition resolve_tag :: "string \<Rightarrow> error + string" where
  "resolve_tag path = match_parts path (posix_parts path)"

record uname =
  system :: string
  machine :: string

definition map_system :: "string \<Rightarrow> error + string" where
  "map_system s = (if s = ''Linux'' then Inr ''linux'' else Inl (ValueError (StrObj s)))"

definition map_machine :: "string \<Rightarrow> error + string" where
  "map_machine m =
     (if m = ''x86_64'' then Inr ''x64''
      else if m = ''aarch64'' then Inr ''arm64''
      else Inl (ValueError (StrObj m)))"

definition tarball_name :: "string \<Rightarrow> string \<Rightarrow> string \<Rightarrow> string" where
  "tarball_name tag sys mach = ''mise-'' @ tag @ ''-'' @ sys @ ''-'' @ mach @ ''.tar.gz''"

definition tarball_url :: "string \<Rightarrow> string \<Rightarrow> string" where
  "tarball_url tag name = download_url @ ''/'' @ tag @ ''/'' @ name"

text \<open>
  What \<^verbatim>\<open>_install_mise\<close> does to the outside, in order: network requests, the
  extraction of the archive and the copies into the home directory.
\<close>

datatype event =
    Urlopen string
  | Extractall
  | Mkdir string
  | Copy2 string string

definition install_files :: "event list" where
  "install_files =
     [Extractall,
      Mkdir ''.local/bin'', Copy2 ''mise/bin/mise'' ''.local/bin/mise'',
      Mkdir ''.local/share/man/man1'', Copy2 ''mise/man/man1/mise.1'' ''.local/share/man/man1/mise.1'']"

text \<open>
  \<^verbatim>\<open>_install_mise\<close>. The network is a function \<open>net\<close> from the requested URL to the
  path of the final URL of the response, or to the error \<^verbatim>\<open>urlopen\<close> raises. The result
  is the list of events up to the return or the raise, and the error if one was raised.
  Failures of the extraction and of the copies are not part of the model.
\<close>

definition install_mise :: "(string \<Rightarrow> error + string) \<Rightarrow> uname \<Rightarrow> event list \<times> (error + unit)" where
  "install_mise net u =
     (case net latest_release_url of
        Inl e \<Rightarrow> ([Urlopen latest_release_url], Inl e)
      | Inr path \<Rightarrow>
     (case resolve_tag path of
        Inl e \<Rightarrow> ([Urlopen latest_release_url], Inl e)
      | Inr tag \<Rightarrow>
     (case map_system (system u) of
        Inl e \<Rightarrow> ([Urlopen latest_release_url], Inl e)
      | Inr sys \<Rightarrow>
     (case map_machine (machine u) of
        Inl e \<Rightarrow> ([Urlopen latest_release_url], Inl e)
      | Inr mach \<Rightarrow>
          (let name = tarball_name tag sys mach;
               url = tarball_url tag name
           in case net url of
                Inl e \<Rightarrow> ([Urlopen latest_release_url, Urlopen url], Inl e)
              | Inr body \<Rightarrow>
                  ([Urlopen latest_release_url, Urlopen url] @ install_files, Inr ()))))))"

text \<open>
  The network of the examples below: every request ends at the release page of
  \<^verbatim>\<open>v1.2.3\<close>.
\<close>

definition example_net :: "string \<Rightarrow> error + string" where
  "example_net url = Inr ''/jdx/mise/releases/tag/v1.2.3''"

subsection \<open>The shape of a release URL, as the specification words it\<close>

text \<open>
  The specification expects the path of the redirect target to have the shape
  \<^verbatim>\<open>{org}/{repo}/releases/tag/{tag}\<close>. The three definitions below say this without
  the path library: a segment is a non-empty name without a slash that is not the
  current-directory name; the segments of a path are the names between its slashes,
  empty names and \<^verbatim>\<open>.\<close> ignored; a path has the shape when it is absolute and
  its segments are an organisation, a repository, the two markers and the tag.
\<close>

definition segment :: "string \<Rightarrow> bool" where
  "segment s = (s \<noteq> [] \<and> CHR ''/'' \<notin> set s \<and> s \<noteq> ''.'')"

definition path_segments :: "string \<Rightarrow> string list" where
  "path_segments path = filter (\<lambda>s. s \<noteq> [] \<and> s \<noteq> ''.'') (str_split CHR ''/'' path)"

fun shape_tag :: "string list \<Rightarrow> string option" where
  "shape_tag [org, repo, r, t, tag] = (if r = ''releases'' \<and> t = ''tag'' then Some tag else None)"
| "shape_tag segs = None"

definition release_tag_of :: "string \<Rightarrow> string option" where
  "release_tag_of path = (if take 1 path = ''/'' then shape_tag (path_segments path) else None)"

section \<open>The clean environment\<close>

text \<open>
  What \<^verbatim>\<open>os.path.expanduser\<close> reads from the process: the environment, the home
  directory of the current user in the password database (\<open>None\<close> when the user has
  no entry) and the home directories of named users.
\<close>

record ambient =
  environ :: "string \<rightharpoonup> string"
  getpwuid_dir :: "string option"
  getpwnam_dir :: "string \<Rightarrow> string option"

definition pathsep :: string where
  "pathsep = '':''"

definition defpath :: string where
  "defpath = ''/bin:/usr/bin''"

text \<open>
  \<^verbatim>\<open>posixpath.expanduser\<close>: a path that does not start with a tilde is returned as
  it is; \<^verbatim>\<open>~\<close> alone or before a slash stands for \<^verbatim>\<open>HOME\<close>, or for the password
  entry of the current user when \<^verbatim>\<open>HOME\<close> is not set; \<^verbatim>\<open>~name\<close> for the password
  entry of that user. A missing entry leaves the path unchanged. Trailing slashes of the
  home directory are stripped, and an empty result is the root.
\<close>

definition expanduser :: "ambient \<Rightarrow> string \<Rightarrow> string" where
  "expanduser a path =
     (if take 1 path \<noteq> ''~'' then path
      else
        (let i = Suc (length (takeWhile (\<lambda>c. c \<noteq> CHR ''/'') (drop 1 path)));
             userhome =
               (if i = 1 then
                  (case environ a ''HOME'' of None \<Rightarrow> getpwuid_dir a | Some h \<Rightarrow> Some h)
                else getpwnam_dir a (take (i - 1) (drop 1 path)))
         in case userhome of
              None \<Rightarrow> path
            | Some h \<Rightarrow>
                (let r = rstrip CHR ''/'' h @ drop i path
                 in if r = [] then ''/'' else r)))"

definition prepare_clean_env :: "ambient \<Rightarrow> (string \<rightharpoonup> string)" where
  "prepare_clean_env a =
     (let path = str_join pathsep
                   [expanduser a ''~/.local/share/mise/shims'',
                    expanduser a ''~/.local/bin'',
                    defpath];
          home = expanduser a ''~''
      in [''PATH'' \<mapsto> path, ''HOME'' \<mapsto> home])"

text \<open>
  The home directory the process resolves for the current user: \<^verbatim>\<open>HOME\<close> when it
  is set, the password entry otherwise.
\<close>

definition resolved_home :: "ambient \<Rightarrow> string option" where
  "resolved_home a = (case environ a ''HOME'' of None \<Rightarrow> getpwuid_dir a | Some h \<Rightarrow> Some h)"

text \<open>Two processes with the same home directory and different search paths.\<close>

definition ambient_login :: ambient where
  "ambient_login =
     \<lparr>environ = [''HOME'' \<mapsto> ''/home/u'', ''PATH'' \<mapsto> ''/opt/evil/bin:/usr/bin''],
      getpwuid_dir = Some ''/home/u'', getpwnam_dir = (\<lambda>n. None)\<rparr>"

definition ambient_cron :: ambient where
  "ambient_cron =
     \<lparr>environ = [''LANG'' \<mapsto> ''C''],
      getpwuid_dir = Some ''/home/u'', getpwnam_dir = (\<lambda>n. None)\<rparr>"

section \<open>Configuration\<close>

record argument =
  operand :: string
  options :: "string list"

datatype str_or_argument = Str string | Arg argument

record config =
  apt :: "string list"
  snap :: "string list"
  snap_classic :: "string list"
  mise_core :: "string list"
  mise :: "string list"
  uv_python :: "string list"
  uv_tool :: "str_or_argument list"
  docker_apt :: "string list"
  docker_image :: "string list"
  setup_commands :: "string list"

fun ensure_argument :: "str_or_argument \<Rightarrow> argument" where
  "ensure_argument (Str s) = \<lparr>operand = s, options = []\<rparr>"
| "ensure_argument (Arg a) = a"

section \<open>Running commands\<close>

text \<open>
  \<^verbatim>\<open>shlex.quote\<close>: the empty string is written as two quotes, a string of safe
  characters as it is, any other string between single quotes, each single quote in it
  replaced by \<^verbatim>\<open>'"'"'\<close>. \<^verbatim>\<open>shlex.join\<close> puts single spaces between the quoted
  arguments.
\<close>

definition safe_chars :: string where
  "safe_chars = ''%+,-./0123456789:=@ABCDEFGHIJKLMNOPQRSTUVWXYZ_abcdefghijklmnopqrstuvwxyz''"

definition shlex_quote :: "string \<Rightarrow> string" where
  "shlex_quote s =
     (if s = [] then [CHR 0x27, CHR 0x27]
      else if list_all (\<lambda>c. c \<in> set safe_chars) s then s
      else [CHR 0x27]
           @ concat (map (\<lambda>c. if c = CHR 0x27
                               then [CHR 0x27, CHR 0x22, CHR 0x27, CHR 0x22, CHR 0x27]
                               else [c]) s)
           @ [CHR 0x27])"

definition shlex_join :: "string list \<Rightarrow> string" where
  "shlex_join args = str_join '' '' (map shlex_quote args)"

definition ansi_green :: string where
  "ansi_green = CHR 0x1B # ''[32m''"

definition ansi_reset :: string where
  "ansi_reset = CHR 0x1B # ''[0m''"

text \<open>
  How a child process ends: with an exit status, or not started at all (the program
  was not found or could not be executed, an \<^verbatim>\<open>OSError\<close> of \<^verbatim>\<open>subprocess.run\<close>).
\<close>

datatype outcome = Exited int | NotStarted

text \<open>
  The machine the script runs on. The state of the machine (packages, files) is a value
  of the type \<open>'w\<close>: \<open>run_process\<close> is \<^verbatim>\<open>subprocess.run\<close> without the check, from
  the state, the arguments and the environment to the outcome and the new state;
  \<open>which\<close> is \<^verbatim>\<open>shutil.which(cmd, path=...)\<close>, from the state, the command and the
  search path. The other fields are \<^verbatim>\<open>os.geteuid()\<close>, \<^verbatim>\<open>sys.executable\<close>,
  \<^verbatim>\<open>__file__\<close>, \<^verbatim>\<open>getpass.getuser()\<close> and what \<^verbatim>\<open>expanduser\<close> reads.
\<close>

record 'w host =
  amb :: ambient
  geteuid :: nat
  executable :: string
  script :: string
  getuser :: string
  run_process :: "'w \<Rightarrow> string list \<Rightarrow> (string \<rightharpoonup> string) \<Rightarrow> outcome \<times> 'w"
  which :: "'w \<Rightarrow> string \<Rightarrow> string \<Rightarrow> string option"

text \<open>
  \<^verbatim>\<open>_check_call\<close>: the line it prints, the error it raises or nothing, and the new
  state of the machine. With no argument at all \<^verbatim>\<open>subprocess.run\<close> raises
  \<^verbatim>\<open>IndexError\<close> when it reads the program's name.
\<close>

definition check_call ::
  "'w host \<Rightarrow> string list \<Rightarrow> (string \<rightharpoonup> string) \<Rightarrow> 'w \<Rightarrow> string \<times> (error + unit) \<times> 'w" where
  "check_call h args env w =
     (let shell_prefix = (if geteuid h = 0 then ''#'' else ''$'');
          shell_string = shell_prefix @ '' '' @ shlex_join args;
          line = ansi_green @ shell_string @ ansi_reset
      in if args = [] then (line, Inl IndexError, w)
         else
           (case run_process h w args env of
              (Exited returncode, w') \<Rightarrow>
                (line,
                 if returncode \<noteq> 0 then Inl (CalledProcessError returncode args) else Inr (),
                 w')
            | (NotStarted, w') \<Rightarrow> (line, Inl OSError, w')))"

section \<open>The full run\<close>

text \<open>
  The state of a run: the machine, the argument lists of the commands executed so far,
  the lines printed, and the exception that ended the run, if any.
\<close>

record 'w run =
  world :: 'w
  calls :: "string list list"
  printed :: "string list"
  raised :: "error option"

definition start :: "'w \<Rightarrow> 'w run" where
  "start w = \<lparr>world = w, calls = [], printed = [], raised = None\<rparr>"

text \<open>
  One \<^verbatim>\<open>_check_call\<close> statement of \<^verbatim>\<open>main\<close>. After an exception nothing more is
  executed; otherwise the command is recorded, its line printed, and an error of
  \<^verbatim>\<open>_check_call\<close> ends the run.
\<close>

definition step :: "'w host \<Rightarrow> (string \<rightharpoonup> string) \<Rightarrow> string list \<Rightarrow> 'w run \<Rightarrow> 'w run" where
  "step h env args st =
     (case raised st of
        Some e \<Rightarrow> st
      | None \<Rightarrow>
          (case check_call h args env (world st) of
             (line, r, w') \<Rightarrow>
               \<lparr>world = w', calls = calls st @ [args], printed = printed st @ [line],
                raised = (case r of Inl e \<Rightarrow> Some e | Inr u \<Rightarrow> None)\<rparr>))"

datatype task = MAIN | PREPARE_DOTFILES | PREPARE_DOCKER | INSTALL_MISE

fun task_value :: "task \<Rightarrow> string" where
  "task_value MAIN = ''main''"
| "task_value PREPARE_DOTFILES = ''prepare_dotfiles''"
| "task_value PREPARE_DOCKER = ''prepare_docker''"
| "task_value INSTALL_MISE = ''install_mise''"

text \<open>
  The \<^verbatim>\<open>MAIN\<close> branch of \<^verbatim>\<open>main\<close>, one definition for each of its commented
  parts. \<open>need\<close> is the test \<^verbatim>\<open>shutil.which(cmd, path=env["PATH"]) is None\<close> in
  the state of the machine at that moment; the clean environment always has a
  \<^verbatim>\<open>PATH\<close>. Whether Docker is needed is decided once, after the dotfiles and before
  the repository is prepared, and passed on to the part for APT.
\<close>

definition need :: "'w host \<Rightarrow> (string \<rightharpoonup> string) \<Rightarrow> 'w run \<Rightarrow> string \<Rightarrow> bool" where
  "need h env st cmd = (which h (world st) cmd (the (env ''PATH'')) = None)"

definition dotfiles_part :: "'w host \<Rightarrow> (string \<rightharpoonup> string) \<Rightarrow> 'w run \<Rightarrow> 'w run" where
  "dotfiles_part h env st = step h env [executable h, script h, task_value PREPARE_DOTFILES] st"

definition docker_repository :: "'w host \<Rightarrow> (string \<rightharpoonup> string) \<Rightarrow> bool \<Rightarrow> 'w run \<Rightarrow> 'w run" where
  "docker_repository h env need_docker st =
     (if need_docker
      then step h env [''sudo'', executable h, script h, task_value PREPARE_DOCKER] st
      else st)"

definition apt_part ::
  "'w host \<Rightarrow> (string \<rightharpoonup> string) \<Rightarrow> config \<Rightarrow> bool \<Rightarrow> string \<Rightarrow> 'w run \<Rightarrow> 'w run" where
  "apt_part h env cfg need_docker user st0 =
     (let st1 = step h env [''sudo'', ''apt-get'', ''update''] st0;
          st2 = step h env [''sudo'', ''apt-get'', ''-y'', ''dist-upgrade''] st1;
          operands = apt cfg @ (if need_docker then docker_apt cfg else []);
          st3 = (if operands \<noteq> []
                 then step h env ([''sudo'', ''apt-get'', ''-y'', ''install'', ''--''] @ operands) st2
                 else st2);
          st4 = (if need_docker
                 then step h env [''sudo'', ''usermod'', ''-aG'', ''docker'', user] st3
                 else st3);
          st5 = step h env [''sudo'', ''apt-get'', ''-y'', ''autopurge''] st4
      in step h env [''sudo'', ''apt-get'', ''-y'', ''autoclean''] st5)"

definition snap_part :: "'w host \<Rightarrow> (string \<rightharpoonup> string) \<Rightarrow> config \<Rightarrow> 'w run \<Rightarrow> 'w run" where
  "snap_part h env cfg st0 =
     (let st1 = step h env [''sudo'', ''snap'', ''refresh''] st0;
          st2 = (if snap cfg \<noteq> []
                 then step h env ([''sudo'', ''snap'', ''install'', ''--''] @ snap cfg) st1
                 else st1)
      in fold (\<lambda>operand. step h env [''sudo'', ''snap'', ''install'', ''--classic'', ''--'', operand])
           (snap_classic cfg) st2)"

definition mise_part :: "'w host \<Rightarrow> (string \<rightharpoonup> string) \<Rightarrow> config \<Rightarrow> 'w run \<Rightarrow> 'w run" where
  "mise_part h env cfg st0 =
     (let need_mise = need h env st0 ''mise'';
          st1 = (if need_mise
                 then step h env [executable h, script h, task_value INSTALL_MISE] st0
                 else step h env [''mise'', ''upgrade'', ''--bump'']
                        (step h env [''mise'', ''self-update'', ''-y''] st0));
          st2 = (if mise_core cfg \<noteq> []
                 then step h env ([''mise'', ''use'', ''-g'', ''--''] @ mise_core cfg) st1
                 else st1)
      in if mise cfg \<noteq> []
         then step h env ([''mise'', ''use'', ''-g'', ''--''] @ mise cfg) st2
         else st2)"

definition uv_part :: "'w host \<Rightarrow> (string \<rightharpoonup> string) \<Rightarrow> config \<Rightarrow> 'w run \<Rightarrow> 'w run" where
  "uv_part h env cfg st0 =
     (let st1 = step h env [''uv'', ''python'', ''upgrade''] st0;
          st2 = (if uv_python cfg \<noteq> []
                 then step h env ([''uv'', ''python'', ''install'', ''--''] @ uv_python cfg) st1
                 else st1);
          st3 = step h env [''uv'', ''tool'', ''upgrade'', ''--all''] st2
      in fold (\<lambda>item.
                 let argument = ensure_argument item
                 in step h env ([''uv'', ''tool'', ''install''] @ options argument
                                @ [''--'', operand argument]))
           (uv_tool cfg) st3)"

definition docker_image_part :: "'w host \<Rightarrow> (string \<rightharpoonup> string) \<Rightarrow> config \<Rightarrow> 'w run \<Rightarrow> 'w run" where
  "docker_image_part h env cfg st =
     fold (\<lambda>operand. step h env [''sudo'', ''docker'', ''pull'', ''--'', operand])
       (docker_image cfg) st"

definition setup_part :: "'w host \<Rightarrow> (string \<rightharpoonup> string) \<Rightarrow> config \<Rightarrow> 'w run \<Rightarrow> 'w run" where
  "setup_part h env cfg st =
     fold (\<lambda>command. step h env [''/bin/sh'', ''-c'', command]) (setup_commands cfg) st"

definition main_task :: "'w host \<Rightarrow> config \<Rightarrow> 'w \<Rightarrow> 'w run" where
  "main_task h cfg w =
     (let env = prepare_clean_env (amb h);
          user = getuser h;
          st1 = dotfiles_part h env (start w);
          need_docker = need h env st1 ''docker'';
          st2 = docker_repository h env need_docker st1;
          st3 = apt_part h env cfg need_docker user st2;
          st4 = snap_part h env cfg st3;
          st5 = mise_part h env cfg st4;
          st6 = uv_part h env cfg st5;
          st7 = docker_image_part h env cfg st6
      in setup_part h env cfg st7)"

subsection \<open>The commands of a run, as lists\<close>

text \<open>
  The argument lists each part issues when no command fails, in order. The lemmas below
  show that each part is the execution of its list.
\<close>

definition docker_calls :: "'w host \<Rightarrow> bool \<Rightarrow> string list list" where
  "docker_calls h need_docker =
     (if need_docker then [[''sudo'', executable h, script h, ''prepare_docker'']] else [])"

definition apt_calls :: "config \<Rightarrow> bool \<Rightarrow> string \<Rightarrow> string list list" where
  "apt_calls cfg need_docker user =
     [[''sudo'', ''apt-get'', ''update''], [''sudo'', ''apt-get'', ''-y'', ''dist-upgrade'']]
     @ (if apt cfg @ (if need_docker then docker_apt cfg else []) \<noteq> []
        then [[''sudo'', ''apt-get'', ''-y'', ''install'', ''--'']
              @ apt cfg @ (if need_docker then docker_apt cfg else [])]
        else [])
     @ (if need_docker then [[''sudo'', ''usermod'', ''-aG'', ''docker'', user]] else [])
     @ [[''sudo'', ''apt-get'', ''-y'', ''autopurge''], [''sudo'', ''apt-get'', ''-y'', ''autoclean'']]"

definition snap_calls :: "config \<Rightarrow> string list list" where
  "snap_calls cfg =
     [[''sudo'', ''snap'', ''refresh'']]
     @ (if snap cfg \<noteq> [] then [[''sudo'', ''snap'', ''install'', ''--''] @ snap cfg] else [])
     @ map (\<lambda>operand. [''sudo'', ''snap'', ''install'', ''--classic'', ''--'', operand])
         (snap_classic cfg)"

definition mise_calls :: "'w host \<Rightarrow> config \<Rightarrow> bool \<Rightarrow> string list list" where
  "mise_calls h cfg need_mise =
     (if need_mise then [[executable h, script h, ''install_mise'']]
      else [[''mise'', ''self-update'', ''-y''], [''mise'', ''upgrade'', ''--bump'']])
     @ (if mise_core cfg \<noteq> [] then [[''mise'', ''use'', ''-g'', ''--''] @ mise_core cfg] else [])
     @ (if mise cfg \<noteq> [] then [[''mise'', ''use'', ''-g'', ''--''] @ mise cfg] else [])"

definition uv_tool_call :: "str_or_argument \<Rightarrow> string list" where
  "uv_tool_call item =
     [''uv'', ''tool'', ''install''] @ options (ensure_argument item)
     @ [''--'', operand (ensure_argument item)]"

definition uv_calls :: "config \<Rightarrow> string list list" where
  "uv_calls cfg =
     [[''uv'', ''python'', ''upgrade'']]
     @ (if uv_python cfg \<noteq> [] then [[''uv'', ''python'', ''install'', ''--''] @ uv_python cfg] else [])
     @ [[''uv'', ''tool'', ''upgrade'', ''--all'']]
     @ map uv_tool_call (uv_tool cfg)"

definition last_calls :: "config \<Rightarrow> string list list" where
  "last_calls cfg =
     map (\<lambda>operand. [''sudo'', ''docker'', ''pull'', ''--'', operand]) (docker_image cfg)
     @ map (\<lambda>command. [''/bin/sh'', ''-c'', command]) (setup_commands cfg)"

definition main_calls :: "'w host \<Rightarrow> config \<Rightarrow> bool \<Rightarrow> bool \<Rightarrow> string list list" where
  "main_calls h cfg need_docker need_mise =
     [[executable h, script h, ''prepare_dotfiles'']]
     @ docker_calls h need_docker @ apt_calls cfg need_docker (getuser h) @ snap_calls cfg
     @ mise_calls h cfg need_mise @ uv_calls cfg @ last_calls cfg"

subsection \<open>Example machines and configurations\<close>

text \<open>
  A machine on which every command exits with status zero, Docker is on the search path
  and mise is not.
\<close>

definition quiet_host :: "unit host" where
  "quiet_host =
     \<lparr>amb = ambient_login, geteuid = 1000, executable = ''/usr/bin/python3'',
      script = ''/opt/setup/main.py'', getuser = ''u'',
      run_process = (\<lambda>w args env. (Exited 0, w)),
      which = (\<lambda>w cmd path. if cmd = ''mise'' then None else Some (''/usr/bin/'' @ cmd))\<rparr>"

definition empty_config :: config where
  "empty_config =
     \<lparr>apt = [], snap = [], snap_classic = [], mise_core = [], mise = [], uv_python = [],
      uv_tool = [], docker_apt = [], docker_image = [], setup_commands = []\<rparr>"

definition ruff_config :: config where
  "ruff_config =
     empty_config\<lparr>uv_tool := [Arg \<lparr>operand = ''ruff'', options = [''--python'', ''3.12'']\<rparr>]\<rparr>"

text \<open>The same machine, except that the refresh of the package index exits with 100.\<close>

definition broken_host :: "unit host" where
  "broken_host =
     quiet_host\<lparr>run_process :=
       (\<lambda>w args env. (Exited (if args = [''sudo'', ''apt-get'', ''update''] then 100 else 0), w))\<rparr>"

subsection \<open>Bookkeeping for the proofs\<close>

text \<open>
  Whether mise is needed, as the run finds it: the test is made in the state the machine
  is in after the parts for the dotfiles, Docker, APT and Snap.
\<close>

definition mise_needed :: "'w host \<Rightarrow> config \<Rightarrow> 'w \<Rightarrow> bool" where
  "mise_needed h cfg w =
     (let env = prepare_clean_env (amb h);
          st1 = dotfiles_part h env (start w);
          nd = need h env st1 ''docker''
      in need h env (snap_part h env cfg (apt_part h env cfg nd (getuser h)
                      (docker_repository h env nd st1))) ''mise'')"

text \<open>
  Between two states of a run the commands of a list were issued: the commands executed in
  between are a prefix of the list, and the whole list when no exception was raised.
\<close>

definition issued :: "'w run \<Rightarrow> 'w run \<Rightarrow> string list list \<Rightarrow> bool" where
  "issued st st' argss =
     (prefix (calls st') (calls st @ argss) \<and>
      (raised st' = None \<longrightarrow> raised st = None \<and> calls st' = calls st @ argss))"

section \<open>Splitting strings\<close>

lemma str_split_not_Nil: "str_split c s \<noteq> []"
  by (induction s) (auto split: list.splits)

lemma str_split_no_sep: "c \<notin> set s \<Longrightarrow> str_split c s = [s]"
  by (induction s) auto

lemma str_split_append: "str_split c (x @ c # y) = str_split c x @ str_split c y"
proof (induction x)
  case Nil
  show ?case by simp
next
  case (Cons d xs)
  obtain w ws where w: "str_split c xs = w # ws"
    using str_split_not_Nil [of c xs] by (cases "str_split c xs") auto
  show ?case
    using Cons.IH w by simp
qed

lemma str_split_segment:
  "c \<notin> set s \<Longrightarrow> str_split c (s @ c # rest) = s # str_split c rest"
  by (simp add: str_split_append str_split_no_sep)

section \<open>Release resolution\<close>

lemma path_segments_slash: "path_segments (CHR ''/'' # p) = path_segments p"
  by (simp add: path_segments_def)

text \<open>The parts of an absolute path are its root and its segments.\<close>

lemma posix_parts_absolute:
  assumes "take 1 path = ''/''"
  shows "\<exists>root. root \<noteq> [] \<and> posix_parts path = root # path_segments path"
proof -
  obtain p where p: "path = CHR ''/'' # p"
    using assms by (cases path) auto
  show ?thesis
  proof (cases "take 1 p \<noteq> ''/'' \<or> take 1 (drop 1 p) = ''/''")
    case True
    then have "posix_parts path = ''/'' # path_segments path"
      by (simp add: p posix_parts_def splitroot_def path_segments_def)
    then show ?thesis by blast
  next
    case False
    then obtain q where q: "p = CHR ''/'' # q"
      by (cases p) auto
    from False have "posix_parts path = ''//'' # path_segments path"
      by (simp add: p q posix_parts_def splitroot_def path_segments_def)
    then show ?thesis by blast
  qed
qed

lemma match_parts_shape:
  "match_parts path (root # segs) =
     (case shape_tag segs of Some t \<Rightarrow> Inr t | None \<Rightarrow> Inl (ValueError (PathObj path)))"
  by (cases segs rule: shape_tag.cases) auto


lemma path_segments_release:
  assumes "segment org" "segment repo" "segment tag"
  shows "path_segments (''/'' @ org @ ''/'' @ repo @ ''/releases/tag/'' @ tag)
           = [org, repo, ''releases'', ''tag'', tag]"
proof -
  have "str_split CHR ''/'' (''/'' @ org @ ''/'' @ repo @ ''/releases/tag/'' @ tag)
          = [[], org, repo, ''releases'', ''tag'', tag]"
    using assms
    by (simp add: segment_def str_split_segment str_split_no_sep
          str_split_segment [of _ "''releases''", simplified]
          str_split_segment [of _ "''tag''", simplified])
  then show ?thesis
    using assms by (simp add: path_segments_def segment_def)
qed

lemma resolve_tag_example:
  "resolve_tag ''/jdx/mise/releases/tag/v1.2.3'' = Inr ''v1.2.3''"
  by (simp add: resolve_tag_def posix_parts_def splitroot_def)

text \<open>
  Claim C1. A redirect target is the path of a URL, so it is empty or starts with a slash.
  For every path \<^verbatim>\<open>/{org}/{repo}/releases/tag/{tag}\<close> made of three segments and the
  two markers the resolver returns exactly the tag. For every redirect target the resolver
  returns the tag when the path has the release shape (its segments, taken as the path
  library takes them, are an organisation, a repository, \<^verbatim>\<open>releases\<close>, \<^verbatim>\<open>tag\<close>
  and the tag), and for every other one it raises \<^verbatim>\<open>ValueError\<close> with the path, the
  script's resolution error, and returns no tag.
\<close>

theorem resolve_tag_release_shape:
  "(segment org \<and> segment repo \<and> segment tag \<longrightarrow>
      resolve_tag (''/'' @ org @ ''/'' @ repo @ ''/releases/tag/'' @ tag) = Inr tag) \<and>
   (path = [] \<or> take 1 path = ''/'' \<longrightarrow>
      resolve_tag path =
        (case release_tag_of path of
           Some t \<Rightarrow> Inr t
         | None \<Rightarrow> Inl (ValueError (PathObj path))))"
proof (intro conjI impI)
  assume "path = [] \<or> take 1 path = ''/''"
  then show "resolve_tag path =
        (case release_tag_of path of
           Some t \<Rightarrow> Inr t
         | None \<Rightarrow> Inl (ValueError (PathObj path)))"
  proof
    assume "path = []"
    then show ?thesis
      by (simp add: resolve_tag_def posix_parts_def splitroot_def release_tag_of_def)
  next
    assume a: "take 1 path = ''/''"
    then obtain root where "posix_parts path = root # path_segments path"
      using posix_parts_absolute by blast
    then show ?thesis
      using a by (simp add: resolve_tag_def release_tag_of_def match_parts_shape)
  qed
next
  assume s: "segment org \<and> segment repo \<and> segment tag"
  let ?p = "''/'' @ org @ ''/'' @ repo @ ''/releases/tag/'' @ tag"
  have "take 1 ?p = ''/''" by simp
  then obtain root where "posix_parts ?p = root # path_segments ?p"
    using posix_parts_absolute by blast
  then show "resolve_tag ?p = Inr tag"
    using s by (simp only: resolve_tag_def match_parts_shape path_segments_release) simp
qed

theorem resolve_tag_release_shape_witness:
  "segment ''org'' \<and> segment ''proj'' \<and> segment ''v1.2.3'' \<and>
   resolve_tag ''/org/proj/releases/tag/v1.2.3'' = Inr ''v1.2.3'' \<and>
   take 1 ''/org/proj/releases/v1.2.3'' = ''/'' \<and>
   release_tag_of ''/org/proj/releases/v1.2.3'' = None \<and>
   resolve_tag ''/org/proj/releases/v1.2.3'' = Inl (ValueError (PathObj ''/org/proj/releases/v1.2.3''))"
proof -
  have s: "segment ''org'' \<and> segment ''proj'' \<and> segment ''v1.2.3''"
    by (simp add: segment_def)
  have a: "take 1 ''/org/proj/releases/v1.2.3'' = ''/''" by simp
  have n: "release_tag_of ''/org/proj/releases/v1.2.3'' = None"
    by (simp add: release_tag_of_def path_segments_def)
  from resolve_tag_release_shape [of "''org''" "''proj''" "''v1.2.3''" "''/org/proj/releases/v1.2.3''"]
  show ?thesis using s a n by simp
qed


section \<open>The archive installer\<close>

text \<open>
  Claim C3, as stated, at a concrete input: on a Darwin machine the installer has already
  sent the request for the latest release when it raises the error for the platform, so
  the failure does not come before every network call.
\<close>

theorem install_mise_unsupported_counterexample:
  "install_mise example_net \<lparr>system = ''Darwin'', machine = ''x86_64''\<rparr> =
     ([Urlopen ''https://github.com/jdx/mise/releases/latest''],
      Inl (ValueError (StrObj ''Darwin'')))"
  by (simp add: install_mise_def example_net_def resolve_tag_example map_system_def
        latest_release_url_def)

text \<open>
  Claim C3, amended. On a machine whose kernel name is not Linux, or whose architecture is
  neither x86-64 nor ARM64, the installer sends exactly one request, the one that resolves
  the latest release, and ends with an error; no archive is requested. When that request
  resolves to a tag, the error is \<^verbatim>\<open>ValueError\<close> with the unsupported name, the
  kernel name first.
\<close>

theorem install_mise_unsupported_platform:
  assumes "system u \<noteq> ''Linux'' \<or> (machine u \<noteq> ''x86_64'' \<and> machine u \<noteq> ''aarch64'')"
  shows "fst (install_mise net u) = [Urlopen latest_release_url] \<and>
         (\<exists>e. snd (install_mise net u) = Inl e) \<and>
         (\<forall>path tag. net latest_release_url = Inr path \<and> resolve_tag path = Inr tag \<longrightarrow>
            snd (install_mise net u) =
              Inl (ValueError (StrObj (if system u \<noteq> ''Linux'' then system u else machine u))))"
  using assms
  by (auto simp: install_mise_def map_system_def map_machine_def split: sum.splits)

theorem install_mise_unsupported_platform_witness:
  "system \<lparr>system = ''Darwin'', machine = ''x86_64''\<rparr> \<noteq> ''Linux'' \<and>
   example_net latest_release_url = Inr ''/jdx/mise/releases/tag/v1.2.3'' \<and>
   resolve_tag ''/jdx/mise/releases/tag/v1.2.3'' = Inr ''v1.2.3'' \<and>
   fst (install_mise example_net \<lparr>system = ''Darwin'', machine = ''x86_64''\<rparr>)
     = [Urlopen latest_release_url] \<and>
   snd (install_mise example_net \<lparr>system = ''Darwin'', machine = ''x86_64''\<rparr>)
     = Inl (ValueError (StrObj ''Darwin''))"
proof -
  have h: "system \<lparr>system = ''Darwin'', machine = ''x86_64''\<rparr> \<noteq> ''Linux'' \<or>
      (machine \<lparr>system = ''Darwin'', machine = ''x86_64''\<rparr> \<noteq> ''x86_64'' \<and>
       machine \<lparr>system = ''Darwin'', machine = ''x86_64''\<rparr> \<noteq> ''aarch64'')"
    by simp
  have n: "example_net latest_release_url = Inr ''/jdx/mise/releases/tag/v1.2.3''"
    by (simp add: example_net_def)
  note r = resolve_tag_example
  from install_mise_unsupported_platform [OF h, of example_net] n r
  show ?thesis using h by simp
qed

text \<open>
  Claim C5. On Linux with x86-64 or ARM64, for every tag the release resolves to, the
  kernel name maps to \<^verbatim>\<open>linux\<close>, the architecture to \<^verbatim>\<open>x64\<close> or \<^verbatim>\<open>arm64\<close>,
  the archive is named \<^verbatim>\<open>mise-{tag}-{os}-{arch}.tar.gz\<close>, and the second request of the
  installer goes to that name under the tag below the fixed download path.
\<close>

theorem install_mise_asset_url:
  assumes "net latest_release_url = Inr path" and "resolve_tag path = Inr tag"
    and "system u = ''Linux''" and "machine u = ''x86_64'' \<or> machine u = ''aarch64''"
  shows "map_system (system u) = Inr ''linux'' \<and>
         map_machine (machine u) = Inr (if machine u = ''x86_64'' then ''x64'' else ''arm64'') \<and>
         tarball_name tag ''linux'' (if machine u = ''x86_64'' then ''x64'' else ''arm64'') =
           ''mise-'' @ tag @ ''-linux-'' @ (if machine u = ''x86_64'' then ''x64'' else ''arm64'')
           @ ''.tar.gz'' \<and>
         (\<exists>rest. fst (install_mise net u) =
           Urlopen latest_release_url #
           Urlopen (''https://github.com/jdx/mise/releases/download/'' @ tag @ ''/mise-'' @ tag
                    @ ''-linux-'' @ (if machine u = ''x86_64'' then ''x64'' else ''arm64'')
                    @ ''.tar.gz'') # rest)"
  using assms
  by (auto simp: install_mise_def map_system_def map_machine_def tarball_name_def
        tarball_url_def download_url_def Let_def split: sum.splits)

theorem install_mise_asset_url_witness:
  "example_net latest_release_url = Inr ''/jdx/mise/releases/tag/v1.2.3'' \<and>
   resolve_tag ''/jdx/mise/releases/tag/v1.2.3'' = Inr ''v1.2.3'' \<and>
   system \<lparr>system = ''Linux'', machine = ''aarch64''\<rparr> = ''Linux'' \<and>
   (machine \<lparr>system = ''Linux'', machine = ''aarch64''\<rparr> = ''x86_64'' \<or>
    machine \<lparr>system = ''Linux'', machine = ''aarch64''\<rparr> = ''aarch64'') \<and>
   (\<exists>rest. fst (install_mise example_net \<lparr>system = ''Linux'', machine = ''aarch64''\<rparr>) =
      Urlopen latest_release_url #
      Urlopen ''https://github.com/jdx/mise/releases/download/v1.2.3/mise-v1.2.3-linux-arm64.tar.gz''
      # rest)"
proof -
  have n: "example_net latest_release_url = Inr ''/jdx/mise/releases/tag/v1.2.3''"
    by (simp add: example_net_def)
  note r = resolve_tag_example
  have s: "system \<lparr>system = ''Linux'', machine = ''aarch64''\<rparr> = ''Linux''" by simp
  have m: "machine \<lparr>system = ''Linux'', machine = ''aarch64''\<rparr> = ''x86_64'' \<or>
    machine \<lparr>system = ''Linux'', machine = ''aarch64''\<rparr> = ''aarch64''" by simp
  from install_mise_asset_url [of example_net "''/jdx/mise/releases/tag/v1.2.3''" "''v1.2.3''"
      "\<lparr>system = ''Linux'', machine = ''aarch64''\<rparr>", OF n r s m]
  show ?thesis using n r by simp
qed

section \<open>The clean environment\<close>

lemma expanduser_current_user:
  assumes "rest = [] \<or> hd rest = CHR ''/''"
  shows "expanduser a (CHR ''~'' # rest) =
     (case resolved_home a of
        None \<Rightarrow> CHR ''~'' # rest
      | Some h \<Rightarrow> (if rstrip CHR ''/'' h @ rest = [] then ''/'' else rstrip CHR ''/'' h @ rest))"
proof -
  have "takeWhile (\<lambda>c. c \<noteq> CHR ''/'') rest = []"
    using assms by (cases rest) auto
  then show ?thesis
    by (simp add: expanduser_def resolved_home_def Let_def split: option.splits)
qed



text \<open>
  Claim C10. Two processes that resolve the same home directory get the same environment,
  whatever else their own environments hold, the caller's \<^verbatim>\<open>PATH\<close> included.
\<close>

theorem prepare_clean_env_noninterference:
  assumes "resolved_home a1 = resolved_home a2"
  shows "prepare_clean_env a1 = prepare_clean_env a2"
proof -
  have "expanduser a1 (CHR ''~'' # rest) = expanduser a2 (CHR ''~'' # rest)"
    if "rest = [] \<or> hd rest = CHR ''/''" for rest
    using that assms by (simp add: expanduser_current_user)
  from this [of "''/.local/share/mise/shims''"] this [of "''/.local/bin''"] this [of "[]"]
  show ?thesis
    by (simp add: prepare_clean_env_def Let_def)
qed

theorem prepare_clean_env_noninterference_witness:
  "resolved_home ambient_login = resolved_home ambient_cron \<and>
   environ ambient_login ''PATH'' \<noteq> environ ambient_cron ''PATH'' \<and>
   prepare_clean_env ambient_login = prepare_clean_env ambient_cron"
proof -
  have h: "resolved_home ambient_login = resolved_home ambient_cron"
    by (simp add: resolved_home_def ambient_login_def ambient_cron_def)
  from prepare_clean_env_noninterference [OF h] h show ?thesis
    by (simp add: ambient_login_def ambient_cron_def)
qed

section \<open>Arguments of tool installs\<close>

text \<open>
  Claim C9. \<open>ensure_argument\<close> turns a plain string into the argument with that operand
  and no options, returns an argument as it is, and applying it to its own result changes
  nothing.
\<close>

theorem ensure_argument_idempotent:
  "ensure_argument (Str s) = \<lparr>operand = s, options = []\<rparr> \<and>
   ensure_argument (Arg a) = a \<and>
   ensure_argument (Arg (ensure_argument x)) = ensure_argument x"
  by simp

section \<open>The command runner\<close>

text \<open>
  Claim C6. For every non-empty argument list and every environment, when the child
  process ends with an exit status, \<open>check_call\<close> raises \<^verbatim>\<open>CalledProcessError\<close>
  with that status and the command exactly when the status is not zero, and returns
  nothing when it is zero.
\<close>

theorem check_call_exit_status:
  assumes "args \<noteq> []" and "run_process h w args env = (Exited returncode, w')"
  shows "fst (snd (check_call h args env w)) =
           (if returncode = 0 then Inr () else Inl (CalledProcessError returncode args))"
  using assms by (simp add: check_call_def Let_def)

theorem check_call_exit_status_witness:
  "[''sudo'', ''apt-get'', ''update''] \<noteq> [] \<and>
   run_process broken_host () [''sudo'', ''apt-get'', ''update''] Map.empty = (Exited 100, ()) \<and>
   fst (snd (check_call broken_host [''sudo'', ''apt-get'', ''update''] Map.empty ())) =
     Inl (CalledProcessError 100 [''sudo'', ''apt-get'', ''update''])"
proof -
  have a: "[''sudo'', ''apt-get'', ''update''] \<noteq> []" by simp
  have r: "run_process broken_host () [''sudo'', ''apt-get'', ''update''] Map.empty = (Exited 100, ())"
    by (simp add: broken_host_def quiet_host_def)
  from check_call_exit_status [OF a r] show ?thesis using r by simp
qed

section \<open>The full run\<close>

subsection \<open>One command, and a list of commands\<close>

lemma step_raised_id: "raised st = Some e \<Longrightarrow> step h env args st = st"
  by (simp add: step_def)

lemma step_calls:
  "calls (step h env args st) = (if raised st = None then calls st @ [args] else calls st)"
  by (auto simp: step_def split: option.splits prod.splits)

lemma step_ok: "raised (step h env args st) = None \<Longrightarrow> raised st = None"
  by (cases "raised st") (auto simp: step_def)

lemma fold_step_raised_id:
  "raised st = Some e \<Longrightarrow> fold (step h env) argss st = st"
  by (induction argss arbitrary: st) (auto simp: step_raised_id)

text \<open>A list of commands that ends without an exception has executed all of them.\<close>

lemma fold_step_ok:
  "raised (fold (step h env) argss st) = None \<Longrightarrow>
     raised st = None \<and> calls (fold (step h env) argss st) = calls st @ argss"
proof (induction argss arbitrary: st)
  case Nil
  then show ?case by simp
next
  case (Cons a as)
  then have "raised (step h env a st) = None \<and>
             calls (fold (step h env) as (step h env a st)) = calls (step h env a st) @ as"
    by simp
  then show ?case
    using step_ok [of h env a st] by (simp add: step_calls)
qed

text \<open>In every case it has executed a prefix of them.\<close>

lemma fold_step_prefix:
  "prefix (calls (fold (step h env) argss st)) (calls st @ argss)"
proof (induction argss arbitrary: st)
  case Nil
  then show ?case by simp
next
  case (Cons a as)
  show ?case
  proof (cases "raised st")
    case None
    from Cons [of "step h env a st"] show ?thesis
      by (simp add: step_calls None)
  next
    case (Some e)
    then show ?thesis by (simp add: step_raised_id fold_step_raised_id)
  qed
qed

lemma issued_fold: "issued st (fold (step h env) argss st) argss"
  using fold_step_ok [of h env argss st]
  by (auto simp: issued_def fold_step_prefix)

lemma issued_trans:
  assumes "issued st st' xs" and "issued st' st'' ys"
    and "\<And>e. raised st' = Some e \<Longrightarrow> st'' = st'"
  shows "issued st st'' (xs @ ys)"
proof (cases "raised st'")
  case None
  with assms(1) have c: "calls st' = calls st @ xs" and r: "raised st = None"
    by (auto simp: issued_def)
  from assms(2) show ?thesis
    by (auto simp: issued_def c r)
next
  case (Some e)
  with assms(3) have "st'' = st'" by blast
  with assms(1) Some show ?thesis
    by (auto simp: issued_def intro: prefix_order.trans)
qed

text \<open>When every process exits with status zero, no command raises.\<close>

lemma step_exit_zero:
  assumes "\<And>w args env. fst (run_process h w args env) = Exited 0"
    and "args \<noteq> []" and "raised st = None"
  shows "raised (step h env args st) = None"
proof -
  obtain w' where "run_process h (world st) args env = (Exited 0, w')"
    using assms(1) [of "world st" args env] by (cases "run_process h (world st) args env") auto
  then show ?thesis
    using assms(2,3) by (simp add: step_def check_call_def Let_def)
qed

lemma fold_step_exit_zero:
  assumes "\<And>w args env. fst (run_process h w args env) = Exited 0"
  shows "[] \<notin> set argss \<Longrightarrow> raised st = None \<Longrightarrow> raised (fold (step h env) argss st) = None"
proof (induction argss arbitrary: st)
  case Nil
  then show ?case by simp
next
  case (Cons a as)
  from Cons.prems have "raised (step h env a st) = None"
    using step_exit_zero [OF assms, of a st env] by auto
  with Cons show ?case by simp
qed

subsection \<open>Each part executes its list\<close>

lemma docker_repository_fold:
  "docker_repository h env nd st = fold (step h env) (docker_calls h nd) st"
  by (simp add: docker_repository_def docker_calls_def)

lemma apt_part_fold:
  "apt_part h env cfg nd user st = fold (step h env) (apt_calls cfg nd user) st"
  by (simp add: apt_part_def apt_calls_def Let_def)

lemma snap_part_fold:
  "snap_part h env cfg st = fold (step h env) (snap_calls cfg) st"
  by (simp add: snap_part_def snap_calls_def Let_def fold_map comp_def)

lemma mise_part_fold:
  "mise_part h env cfg st =
     fold (step h env) (mise_calls h cfg (need h env st ''mise'')) st"
  by (simp add: mise_part_def mise_calls_def Let_def)

lemma uv_part_fold:
  "uv_part h env cfg st = fold (step h env) (uv_calls cfg) st"
  by (simp add: uv_part_def uv_calls_def uv_tool_call_def Let_def fold_map comp_def)

lemma last_parts_fold:
  "setup_part h env cfg (docker_image_part h env cfg st) = fold (step h env) (last_calls cfg) st"
  by (simp add: setup_part_def docker_image_part_def last_calls_def fold_map comp_def)

lemma main_task_fold:
  "main_task h cfg w =
     (let env = prepare_clean_env (amb h);
          st1 = dotfiles_part h env (start w);
          nd = need h env st1 ''docker'';
          st4 = fold (step h env)
                  (docker_calls h nd @ apt_calls cfg nd (getuser h) @ snap_calls cfg) st1;
          nm = need h env st4 ''mise''
      in fold (step h env) (mise_calls h cfg nm @ uv_calls cfg @ last_calls cfg) st4)"
  by (simp add: main_task_def Let_def docker_repository_fold apt_part_fold snap_part_fold
        mise_part_fold uv_part_fold last_parts_fold)

text \<open>
  The commands of a full run are a prefix of the list for its configuration and its two
  presence checks, and the whole list when the run ends without an exception.
\<close>

lemma main_task_issued:
  "issued (start w) (main_task h cfg w)
     (main_calls h cfg (need h (prepare_clean_env (amb h))
                          (dotfiles_part h (prepare_clean_env (amb h)) (start w)) ''docker'')
        (mise_needed h cfg w))"
proof -
  define env where "env = prepare_clean_env (amb h)"
  define st1 where "st1 = dotfiles_part h env (start w)"
  define nd where "nd = need h env st1 ''docker''"
  define xs where "xs = [[executable h, script h, ''prepare_dotfiles'']] @ docker_calls h nd
                        @ apt_calls cfg nd (getuser h) @ snap_calls cfg"
  define st4 where "st4 = fold (step h env) xs (start w)"
  define nm where "nm = need h env st4 ''mise''"
  define ys where "ys = mise_calls h cfg nm @ uv_calls cfg @ last_calls cfg"
  have m: "main_task h cfg w = fold (step h env) ys st4"
    by (simp add: main_task_fold Let_def env_def st1_def nd_def xs_def st4_def nm_def ys_def
          dotfiles_part_def)
  have n: "mise_needed h cfg w = nm"
    by (simp add: mise_needed_def Let_def env_def st1_def nd_def xs_def st4_def nm_def
          dotfiles_part_def docker_repository_fold apt_part_fold snap_part_fold)
  have "issued (start w) st4 xs"
    unfolding st4_def by (rule issued_fold)
  moreover have "issued st4 (fold (step h env) ys st4) ys"
    by (rule issued_fold)
  ultimately have "issued (start w) (fold (step h env) ys st4) (xs @ ys)"
    by (rule issued_trans) (simp add: fold_step_raised_id)
  then show ?thesis
    unfolding m [symmetric] n
    by (simp add: main_calls_def xs_def ys_def nd_def st1_def env_def)
qed

lemma main_calls_not_Nil: "[] \<notin> set (main_calls h cfg nd nm)"
  by (auto simp: main_calls_def docker_calls_def apt_calls_def snap_calls_def mise_calls_def
        uv_calls_def last_calls_def uv_tool_call_def)

lemma main_task_exit_zero:
  assumes "\<And>w args env. fst (run_process h w args env) = Exited 0"
  shows "raised (main_task h cfg w) = None"
proof -
  have n: "[] \<notin> set (docker_calls h nd @ apt_calls cfg nd (getuser h) @ snap_calls cfg)"
          "[] \<notin> set (mise_calls h cfg nm @ uv_calls cfg @ last_calls cfg)" for nd nm
    using main_calls_not_Nil [of h cfg nd nm] by (simp_all add: main_calls_def)
  have "raised (dotfiles_part h env (start w)) = None" for env
    unfolding dotfiles_part_def
    by (rule step_exit_zero [OF assms]) (simp_all add: start_def)
  then show ?thesis
    unfolding main_task_fold Let_def
    by (intro fold_step_exit_zero [OF assms] n)
qed

subsection \<open>The run on the example machine\<close>

lemma quiet_host_exit_zero: "fst (run_process quiet_host w args env) = Exited 0"
  by (simp add: quiet_host_def)





text \<open>
  Claim C8. In a full run that ends without an error, every entry of the user-level tools
  that is given as an operand with options has its install command among the commands
  executed: \<^verbatim>\<open>uv tool install\<close>, then the options of the entry, then the
  end-of-options marker, then the operand.
\<close>

theorem main_task_uv_tool_install:
  assumes "raised (main_task h cfg w) = None" and "Arg a \<in> set (uv_tool cfg)"
  shows "[''uv'', ''tool'', ''install''] @ options a @ [''--'', operand a]
           \<in> set (calls (main_task h cfg w))"
proof -
  from main_task_issued [of w h cfg] assms(1)
  obtain nd nm where c: "calls (main_task h cfg w) = main_calls h cfg nd nm"
    by (auto simp: issued_def start_def)
  have "uv_tool_call (Arg a) \<in> set (uv_calls cfg)"
    using assms(2) by (simp add: uv_calls_def)
  then show ?thesis
    by (simp add: c main_calls_def uv_tool_call_def)
qed

theorem main_task_uv_tool_install_witness:
  "raised (main_task quiet_host ruff_config ()) = None \<and>
   Arg \<lparr>operand = ''ruff'', options = [''--python'', ''3.12'']\<rparr> \<in> set (uv_tool ruff_config) \<and>
   [''uv'', ''tool'', ''install'', ''--python'', ''3.12'', ''--'', ''ruff'']
     \<in> set (calls (main_task quiet_host ruff_config ()))"
proof -
  have r: "raised (main_task quiet_host ruff_config ()) = None"
    by (rule main_task_exit_zero) (rule quiet_host_exit_zero)
  have m: "Arg \<lparr>operand = ''ruff'', options = [''--python'', ''3.12'']\<rparr> \<in> set (uv_tool ruff_config)"
    by (simp add: ruff_config_def empty_config_def)
  from main_task_uv_tool_install [OF r m] r m show ?thesis by simp
qed

end
